theory Spec2Isabelle
  imports Complex_Main
begin

section \<open>Request instrumentation (main.go, lines 26--64)\<close>

text \<open>
  A Go \<^verbatim>\<open>error\<close> value is modelled by its message; \<^verbatim>\<open>nil\<close> is \<open>None\<close> of
  \<open>error option\<close>.
\<close>

type_synonym error = string

text \<open>
  Modelled from the spec: the histogram and counter types belong to the metrics library,
  which is not part of the source. Section 3 of the specification describes the histogram as
  an ordered list of upper bounds with one counter per bound and an overflow counter, a
  running sum and a total count; an observation increments the counter of the smallest
  bound that is not below the value (the overflow counter when there is none), adds the
  value to the sum and adds one to the count. The counter is a number that only grows.
  Both carry the name and the help text they were created with.
  Durations are real numbers of seconds (the rounding of the machine's floating point
  numbers is left out).
\<close>

record Opts =
  Name :: string
  Help :: string

record HistogramOpts = Opts +
  Buckets :: "real list"

record counter =
  cdesc :: Opts
  cvalue :: nat

record histogram =
  hdesc :: Opts
  upperBounds :: "real list"
  buckets :: "nat list"
  hsum :: real
  hcount :: nat

definition DefBuckets :: "real list" where
  "DefBuckets = [0.005, 0.01, 0.025, 0.05, 0.1, 0.25, 0.5, 1, 2.5, 5, 10]"

definition NewCounter :: "Opts \<Rightarrow> counter" where
  "NewCounter opts = \<lparr>cdesc = opts, cvalue = 0\<rparr>"

definition NewHistogram :: "HistogramOpts \<Rightarrow> histogram" where
  "NewHistogram opts =
     \<lparr>hdesc = \<lparr>Name = Name opts, Help = Help opts\<rparr>,
      upperBounds = Buckets opts,
      buckets = replicate (length (Buckets opts) + 1) 0,
      hsum = 0, hcount = 0\<rparr>"

definition Inc :: "counter \<Rightarrow> counter" where
  "Inc m = m\<lparr>cvalue := cvalue m + 1\<rparr>"

definition bucketIndex :: "real list \<Rightarrow> real \<Rightarrow> nat" where
  "bucketIndex bs v = length (takeWhile (\<lambda>b. b < v) bs)"

definition Observe :: "histogram \<Rightarrow> real \<Rightarrow> histogram" where
  "Observe h v =
     (let i = bucketIndex (upperBounds h) v in
      h\<lparr>buckets := (if i < length (buckets h) then (buckets h)[i := buckets h ! i + 1]
                     else buckets h),
        hsum := hsum h + v,
        hcount := hcount h + 1\<rparr>)"

text \<open>
  The state a request handler runs in.
  \<^item> \<open>errorCounter\<close> and \<open>requestDuration\<close> are the two package-level variables of
    lines 27--38.
  \<^item> \<open>clock\<close> is the reading of the monotonic clock in nanoseconds, which
    \<^verbatim>\<open>time.Now\<close> and \<^verbatim>\<open>time.Since\<close> consult.
  \<^item> \<open>HTTPErrorHandler\<close> is the error handler of the framework, which the context reaches
    in \<^verbatim>\<open>c.Error(err)\<close>. It is code of another package: it writes the error response and
    takes its time, so it may change the world and the clock; the variables of package
    \<^verbatim>\<open>main\<close> are out of its reach.
  \<^item> \<open>handled\<close> lists the errors that were passed to the error handler, oldest first.
  \<^item> \<open>invocations\<close> is a ghost counter, which no code reads: \<open>tick\<close> below counts the runs
    of a handler in it.
  \<^item> \<open>world\<close> is everything else a handler can read or change (request, response,
    session, database).
\<close>

record 'w state =
  errorCounter :: counter
  requestDuration :: histogram
  clock :: int
  HTTPErrorHandler :: "error \<Rightarrow> int \<times> 'w \<Rightarrow> int \<times> 'w"
  handled :: "error list"
  invocations :: nat
  world :: 'w

text \<open>
  A handler is code of another package, called with the context. It either returns an
  error value (\<open>None\<close> for \<^verbatim>\<open>nil\<close>) or panics; in both cases it leaves a state behind.
\<close>

datatype reply = Returned "error option" | Panicked

type_synonym 'w HandlerFunc = "'w state \<Rightarrow> reply \<times> 'w state"

type_synonym 'w MiddlewareFunc = "'w HandlerFunc \<Rightarrow> 'w HandlerFunc"

text \<open>
  Lines 27--44: the two metrics as they are when the program starts.
  \<^verbatim>\<open>
  requestDuration = prometheus.NewHistogram(prometheus.HistogramOpts{
      Name:    "http_request_duration_seconds",
      Help:    "Duration of HTTP requests in seconds",
      Buckets: prometheus.DefBuckets,
  })
  errorCounter = prometheus.NewCounter(prometheus.CounterOpts{
      Name: "http_errors_total",
      Help: "Total number of HTTP errors",
  })
  \<close>
  The error handler, the clock and the world are what the state starts with.
\<close>

definition init :: "(error \<Rightarrow> int \<times> 'w \<Rightarrow> int \<times> 'w) \<Rightarrow> int \<Rightarrow> 'w \<Rightarrow> 'w state" where
  "init eh t w =
     \<lparr>errorCounter =
        NewCounter \<lparr>Name = ''http_errors_total'', Help = ''Total number of HTTP errors''\<rparr>,
      requestDuration =
        NewHistogram \<lparr>Name = ''http_request_duration_seconds'',
                      Help = ''Duration of HTTP requests in seconds'',
                      Buckets = DefBuckets\<rparr>,
      clock = t, HTTPErrorHandler = eh, handled = [], invocations = 0, world = w\<rparr>"

text \<open>
  \<^verbatim>\<open>c.Error(err)\<close> runs the framework's error handler on the error: the handler changes
  the world and the clock, and the invocation is recorded.
\<close>

definition c_Error :: "error \<Rightarrow> 'w state \<Rightarrow> 'w state" where
  "c_Error err c =
     (let (t, w) = HTTPErrorHandler c err (clock c, world c)
      in c\<lparr>clock := t, world := w, handled := handled c @ [err]\<rparr>)"

text \<open>\<^verbatim>\<open>time.Since(start).Seconds()\<close>: the elapsed nanoseconds, in seconds.\<close>

definition Seconds :: "int \<Rightarrow> real" where
  "Seconds d = real_of_int d / 1000000000"

text \<open>
  Lines 47--64.
  \<^verbatim>\<open>
  func metricsMiddleware(next echo.HandlerFunc) echo.HandlerFunc {
      return func(c echo.Context) error {
          start := time.Now()
          err := next(c)
          if err != nil {
              c.Error(err)
              errorCounter.Inc()
          }
          duration := time.Since(start).Seconds()
          requestDuration.Observe(duration)
          return err
      }
  }
  \<close>
  There is no \<^verbatim>\<open>recover\<close> and no \<^verbatim>\<open>defer\<close> in it: when \<^verbatim>\<open>next(c)\<close> panics, the
  panic passes through and none of the statements after the call runs.
\<close>

definition metricsMiddleware :: "'w HandlerFunc \<Rightarrow> 'w HandlerFunc" where
  "metricsMiddleware next c =
     (let start = clock c;
          (r, c1) = next c
      in case r of
           Panicked \<Rightarrow> (Panicked, c1)
         | Returned err \<Rightarrow>
             (let c2 = (case err of
                          None \<Rightarrow> c1
                        | Some e \<Rightarrow>
                            (let c' = c_Error e c1
                             in c'\<lparr>errorCounter := Inc (errorCounter c')\<rparr>));
                  duration = Seconds (clock c2 - start);
                  c3 = c2\<lparr>requestDuration := Observe (requestDuration c2) duration\<rparr>
              in (Returned err, c3)))"

section \<open>The web framework as main.go uses it\<close>

text \<open>
  Modelled from the spec: the web framework is a library and not part of the source.
  The specification describes middleware as an ordered list of interceptors, each taking the
  next stage and returning a stage, composed so that the one installed first wraps all the
  others (sections 4.2 and 9), and describes a failure returned by the handler chain as
  signalled to the framework, which then runs its error handling (section 4.1).
  \<open>Use\<close> appends to the list of middleware, \<open>GET\<close> binds a handler to a method and
  a path, and \<open>ServeHTTP\<close> looks the handler up, wraps it in the middleware and runs it;
  an error that comes back goes to the error handler, and a panic passes through.
  \<open>WrapHandler\<close> makes a handler of the framework out of a plain HTTP handler, which
  returns nothing: the wrapped handler runs it and returns \<^verbatim>\<open>nil\<close>.
\<close>

type_synonym 'w router = "string \<times> string \<Rightarrow> 'w HandlerFunc"

record 'w Echo =
  middleware :: "'w MiddlewareFunc list"
  router :: "'w router"

definition NotFoundHandler :: "'w HandlerFunc" where
  "NotFoundHandler c = (Returned (Some ''Not Found''), c)"

definition New :: "'w Echo" where
  "New = \<lparr>middleware = [], router = (\<lambda>r. NotFoundHandler)\<rparr>"

definition Use :: "'w Echo \<Rightarrow> 'w MiddlewareFunc \<Rightarrow> 'w Echo" where
  "Use e m = e\<lparr>middleware := middleware e @ [m]\<rparr>"

definition GET :: "'w Echo \<Rightarrow> string \<Rightarrow> 'w HandlerFunc \<Rightarrow> 'w Echo" where
  "GET e path h = e\<lparr>router := (router e)((''GET'', path) := h)\<rparr>"

definition WrapHandler :: "('w state \<Rightarrow> 'w state) \<Rightarrow> 'w HandlerFunc" where
  "WrapHandler h c = (Returned None, h c)"

fun applyMiddleware :: "'w HandlerFunc \<Rightarrow> 'w MiddlewareFunc list \<Rightarrow> 'w HandlerFunc" where
  "applyMiddleware h [] = h"
| "applyMiddleware h (m # ms) = m (applyMiddleware h ms)"

definition ServeHTTP :: "'w Echo \<Rightarrow> string \<times> string \<Rightarrow> 'w state \<Rightarrow> 'w state" where
  "ServeHTTP e r c =
     (let h = applyMiddleware (router e r) (middleware e);
          (rp, c') = h c
      in case rp of
           Returned None \<Rightarrow> c'
         | Returned (Some x) \<Rightarrow> c_Error x c'
         | Panicked \<Rightarrow> c')"

text \<open>
  What a collaborator that is handed the server may do to it: install further middleware
  and change the routing. The collaborators themselves (router, logging and session
  middleware, static files) are parameters, and so is the HTTP handler of the metrics
  library, \<^verbatim>\<open>promhttp.Handler()\<close>.
\<close>

record 'w registration =
  uses :: "'w MiddlewareFunc list"
  routing :: "'w router \<Rightarrow> 'w router"

definition register :: "'w registration \<Rightarrow> 'w Echo \<Rightarrow> 'w Echo" where
  "register g e = e\<lparr>middleware := middleware e @ uses g, router := routing g (router e)\<rparr>"

record 'w collaborators =
  promhttp_Handler :: "'w state \<Rightarrow> 'w state"
  router_Init :: "'w registration"
  InitLoggerMiddleware :: "'w registration"
  InitSessionMiddleware :: "'w registration"
  Static :: "string \<Rightarrow> string \<Rightarrow> 'w router \<Rightarrow> 'w router"

text \<open>
  The server \<^verbatim>\<open>e\<close> as lines 67--97 of \<^verbatim>\<open>main\<close> leave it when every call returns:
  \<^verbatim>\<open>
  e := echo.New()
  e.Use(metricsMiddleware)
  e.GET("/prometheus", echo.WrapHandler(promhttp.Handler()))
  ...
  router.Init(e, container)
  middleware.InitLoggerMiddleware(e, container)
  middleware.InitSessionMiddleware(e, container)
  if conf.StaticContents.Path != "" {
      e.Static("/", conf.StaticContents.Path)
  }
  \<close>
\<close>

definition main_server :: "'w collaborators \<Rightarrow> string \<Rightarrow> 'w Echo" where
  "main_server co path =
     (let e = New;
          e = Use e metricsMiddleware;
          e = GET e ''/prometheus'' (WrapHandler (promhttp_Handler co));
          e = register (router_Init co) e;
          e = register (InitLoggerMiddleware co) e;
          e = register (InitSessionMiddleware co) e;
          e = (if path \<noteq> [] then e\<lparr>router := Static co ''/'' path (router e)\<rparr> else e)
      in e)"

section \<open>The lifecycle of the process (main.go, lines 66--105)\<close>

text \<open>
  Every call that \<^verbatim>\<open>main\<close> makes, in the order of the text. The two calls of the
  logger's \<^verbatim>\<open>Infof\<close> and its \<^verbatim>\<open>Errorf\<close> are told apart by their place.
\<close>

datatype call =
    echo_New | e_Use | e_GET | config_Load | logger_NewLogger | Infof_loaded
  | repository_NewBookRepository | container_NewContainer
  | migration_CreateDatabase | migration_InitMasterData
  | router_Init_call | InitLoggerMiddleware_call | InitSessionMiddleware_call
  | e_Static | Infof_static | e_Start | Errorf_start | rep_Close

text \<open>
  The callees are outside the source, so what a call does is a parameter (\<open>outcome_of\<close>),
  as is the path of the static files that the loaded configuration holds
  (\<^verbatim>\<open>conf.StaticContents.Path\<close>).
  A call either comes back to \<^verbatim>\<open>main\<close>, carrying what it reports (\<open>None\<close> for
  success, \<open>Some msg\<close> for a failure), or it ends the process: by a panic, by
  \<^verbatim>\<open>os.Exit\<close> with a code, or because a signal kills the process while the call is running
  (\<^verbatim>\<open>main\<close> installs no signal handler).
\<close>

datatype outcome = Returns "error option" | Panics | Exits int | Killed

datatype ending = ExitCode int | Signalled

record callees =
  outcome_of :: "call \<Rightarrow> outcome"
  staticPath :: string

fun returns :: "outcome \<Rightarrow> bool" where
  "returns (Returns r) = True"
| "returns Panics = False"
| "returns (Exits n) = False"
| "returns Killed = False"

text \<open>
  The process: the calls made so far, the deferred calls of \<^verbatim>\<open>main\<close> (the most recent
  first), and how the process ended (\<open>None\<close> while it runs).
\<close>

record proc =
  trace :: "call list"
  deferred :: "call list"
  status :: "ending option"

definition start :: proc where
  "start = \<lparr>trace = [], deferred = [], status = None\<rparr>"

text \<open>
  Deferred calls run last-in first-out when \<^verbatim>\<open>main\<close> returns or panics. A panic in one
  of them does not stop the others and makes the exit code 2; \<^verbatim>\<open>os.Exit\<close> and a signal
  end the process at once.
\<close>

fun run_deferred :: "callees \<Rightarrow> call list \<Rightarrow> ending \<Rightarrow> call list \<Rightarrow> ending \<times> call list" where
  "run_deferred k [] t tr = (t, tr)"
| "run_deferred k (d # ds) t tr =
     (case outcome_of k d of
        Returns r \<Rightarrow> run_deferred k ds t (tr @ [d])
      | Panics \<Rightarrow> run_deferred k ds (ExitCode 2) (tr @ [d])
      | Exits n \<Rightarrow> (ExitCode n, tr @ [d])
      | Killed \<Rightarrow> (Signalled, tr @ [d]))"

definition unwind :: "callees \<Rightarrow> ending \<Rightarrow> proc \<Rightarrow> proc" where
  "unwind k t p =
     (let (t', tr) = run_deferred k (deferred p) t (trace p)
      in p\<lparr>trace := tr, deferred := [], status := Some t'\<rparr>)"

text \<open>A call statement. Nothing is executed once the process has ended.\<close>

definition call :: "callees \<Rightarrow> call \<Rightarrow> proc \<Rightarrow> proc" where
  "call k c p =
     (if status p \<noteq> None then p
      else let p' = p\<lparr>trace := trace p @ [c]\<rparr> in
        case outcome_of k c of
          Returns r \<Rightarrow> p'
        | Panics \<Rightarrow> unwind k (ExitCode 2) p'
        | Exits n \<Rightarrow> p'\<lparr>status := Some (ExitCode n)\<rparr>
        | Killed \<Rightarrow> p'\<lparr>status := Some Signalled\<rparr>)"

text \<open>The value a call handed back, for the one place where \<^verbatim>\<open>main\<close> looks at it.\<close>

fun returned :: "outcome \<Rightarrow> error option" where
  "returned (Returns r) = r"
| "returned Panics = None"
| "returned (Exits n) = None"
| "returned Killed = None"

definition defer_stmt :: "call \<Rightarrow> proc \<Rightarrow> proc" where
  "defer_stmt d p = (if status p \<noteq> None then p else p\<lparr>deferred := d # deferred p\<rparr>)"

text \<open>Returning from \<^verbatim>\<open>main\<close>: the deferred calls run, and the exit code is 0.\<close>

definition return_main :: "callees \<Rightarrow> proc \<Rightarrow> proc" where
  "return_main k p = (if status p \<noteq> None then p else unwind k (ExitCode 0) p)"

text \<open>
  Lines 66--105.
  \<^verbatim>\<open>
  func main() {
      e := echo.New()
      e.Use(metricsMiddleware)
      e.GET("/prometheus", echo.WrapHandler(promhttp.Handler()))
      conf, env := config.Load()
      logger := logger.NewLogger(env)
      logger.GetZapLogger().Infof("Loaded configuration: application.%s.yml", env)
      rep := repository.NewBookRepository(logger, conf)
      container := container.NewContainer(rep, conf, logger, env)
      migration.CreateDatabase(container)
      migration.InitMasterData(container)
      router.Init(e, container)
      middleware.InitLoggerMiddleware(e, container)
      middleware.InitSessionMiddleware(e, container)
      if conf.StaticContents.Path != "" {
          e.Static("/", conf.StaticContents.Path)
          logger.GetZapLogger().Infof("Served static contents. Path: %s", conf.StaticContents.Path)
      }
      if err := e.Start(":8000"); err != nil {
          logger.GetZapLogger().Errorf("Error starting server: %s", err.Error())
      }
      defer rep.Close()
  }
  \<close>
\<close>

definition main :: "callees \<Rightarrow> proc" where
  "main k =
     (let p = call k echo_New start;
          p = call k e_Use p;
          p = call k e_GET p;
          p = call k config_Load p;
          p = call k logger_NewLogger p;
          p = call k Infof_loaded p;
          p = call k repository_NewBookRepository p;
          p = call k container_NewContainer p;
          p = call k migration_CreateDatabase p;
          p = call k migration_InitMasterData p;
          p = call k router_Init_call p;
          p = call k InitLoggerMiddleware_call p;
          p = call k InitSessionMiddleware_call p;
          p = (if staticPath k \<noteq> [] then call k Infof_static (call k e_Static p) else p);
          p = call k e_Start p;
          err = returned (outcome_of k e_Start);
          p = (if err \<noteq> None then call k Errorf_start p else p);
          p = defer_stmt rep_Close p
      in return_main k p)"


section \<open>Auxiliary definitions\<close>

text \<open>
  The calls of \<^verbatim>\<open>main\<close> before its \<^verbatim>\<open>defer\<close> statement, in the order of the text,
  for a run in which each of them returns.
\<close>

definition body :: "callees \<Rightarrow> call list" where
  "body k =
     [echo_New, e_Use, e_GET, config_Load, logger_NewLogger, Infof_loaded,
      repository_NewBookRepository, container_NewContainer,
      migration_CreateDatabase, migration_InitMasterData,
      router_Init_call, InitLoggerMiddleware_call, InitSessionMiddleware_call]
     @ (if staticPath k \<noteq> [] then [e_Static, Infof_static] else [])
     @ [e_Start]
     @ (if returned (outcome_of k e_Start) \<noteq> None then [Errorf_start] else [])"

text \<open>The calls of \<^verbatim>\<open>main\<close> before the serve call, in the order of the text.\<close>

definition startup :: "callees \<Rightarrow> call list" where
  "startup k =
     [echo_New, e_Use, e_GET, config_Load, logger_NewLogger, Infof_loaded,
      repository_NewBookRepository, container_NewContainer,
      migration_CreateDatabase, migration_InitMasterData,
      router_Init_call, InitLoggerMiddleware_call, InitSessionMiddleware_call]
     @ (if staticPath k \<noteq> [] then [e_Static, Infof_static] else [])"

fun calls :: "callees \<Rightarrow> call list \<Rightarrow> proc \<Rightarrow> proc" where
  "calls k [] p = p"
| "calls k (c # cs) p = calls k cs (call k c p)"

text \<open>The calls of a list that are made: all up to and including the first that does not return.\<close>

fun upto_abort :: "callees \<Rightarrow> call list \<Rightarrow> call list" where
  "upto_abort k [] = []"
| "upto_abort k (c # cs) = c # (if returns (outcome_of k c) then upto_abort k cs else [])"

fun ending_of :: "outcome \<Rightarrow> ending" where
  "ending_of (Returns r) = ExitCode 0"
| "ending_of Panics = ExitCode 2"
| "ending_of (Exits n) = ExitCode n"
| "ending_of Killed = Signalled"

fun first_ending :: "callees \<Rightarrow> call list \<Rightarrow> ending" where
  "first_ending k [] = ExitCode 0"
| "first_ending k (c # cs) =
     (if returns (outcome_of k c) then first_ending k cs else ending_of (outcome_of k c))"

text \<open>The calls that follow \<open>c\<close> in a list, and the place of \<open>c\<close> in it.\<close>

fun after :: "call \<Rightarrow> call list \<Rightarrow> call list" where
  "after c [] = []"
| "after c (x # xs) = (if x = c then xs else after c xs)"

fun position :: "call \<Rightarrow> call list \<Rightarrow> nat" where
  "position c [] = 0"
| "position c (x # xs) = (if x = c then 0 else Suc (position c xs))"

text \<open>
  The startup stages that can fail: loading the configuration, opening the repository,
  migrating the schema and seeding the master data.
\<close>

definition startup_stages :: "call list" where
  "startup_stages =
     [config_Load, repository_NewBookRepository, migration_CreateDatabase,
      migration_InitMasterData]"

text \<open>Sample runs of the process.\<close>

definition all_return :: "call \<Rightarrow> outcome" where
  "all_return c = Returns None"

definition serve_error :: callees where
  "serve_error =
     \<lparr>outcome_of = all_return
        (e_Start := Returns (Some ''listen tcp :8000: bind: address already in use'')),
      staticPath = ''public''\<rparr>"

definition signal_while_serving :: callees where
  "signal_while_serving = \<lparr>outcome_of = all_return(e_Start := Killed), staticPath = []\<rparr>"

definition migration_panics :: callees where
  "migration_panics =
     \<lparr>outcome_of = all_return(migration_CreateDatabase := Panics), staticPath = []\<rparr>"

definition migration_fails :: callees where
  "migration_fails =
     \<lparr>outcome_of = all_return(migration_CreateDatabase := Returns (Some ''migration failed'')),
      staticPath = []\<rparr>"

text \<open>
  The two metrics are variables of package \<^verbatim>\<open>main\<close>, out of the reach of the handlers and
  middleware of other packages. A handler of the collaborators is taken to return (with an
  error or without) and to leave the histogram as it found it; a middleware of the
  collaborators is taken to do so around every handler that does.
\<close>

definition returns_keeping_histogram :: "'w HandlerFunc \<Rightarrow> bool" where
  "returns_keeping_histogram h \<longleftrightarrow>
     (\<forall>c. fst (h c) \<noteq> Panicked \<and> requestDuration (snd (h c)) = requestDuration c)"

definition passes_on :: "'w MiddlewareFunc \<Rightarrow> bool" where
  "passes_on m \<longleftrightarrow>
     (\<forall>h. returns_keeping_histogram h \<longrightarrow> returns_keeping_histogram (m h))"

text \<open>A change of the routing that does not rebind the route \<open>r\<close>.\<close>

definition leaves_route :: "string \<times> string \<Rightarrow> ('w router \<Rightarrow> 'w router) \<Rightarrow> bool" where
  "leaves_route r f \<longleftrightarrow> (\<forall>ro. f ro r = ro r)"


text \<open>
  Sample handlers, which count their runs in the world: one succeeds after 200 ms, one
  fails after 10 ms, one panics after 5 ms. A sample error handler, which takes 20 ms to
  write its response, a sample metrics handler, and a sample set of collaborators with a
  failing route.
\<close>

definition respond :: "error \<Rightarrow> int \<times> nat \<Rightarrow> int \<times> nat" where
  "respond err tw = (fst tw + 20000000, snd tw)"

definition succeed :: "nat HandlerFunc" where
  "succeed c = (Returned None, c\<lparr>clock := clock c + 200000000, world := Suc (world c)\<rparr>)"

definition fail :: "nat HandlerFunc" where
  "fail c =
     (Returned (Some ''boom''), c\<lparr>clock := clock c + 10000000, world := Suc (world c)\<rparr>)"


definition scrape :: "nat state \<Rightarrow> nat state" where
  "scrape c = c\<lparr>clock := clock c + 1000000\<rparr>"

definition sample :: "nat collaborators" where
  "sample =
     \<lparr>promhttp_Handler = scrape,
      router_Init = \<lparr>uses = [], routing = (\<lambda>r. r((''GET'', ''/api/books'') := fail))\<rparr>,
      InitLoggerMiddleware = \<lparr>uses = [\<lambda>h. h], routing = (\<lambda>r. r)\<rparr>,
      InitSessionMiddleware = \<lparr>uses = [\<lambda>h. h], routing = (\<lambda>r. r)\<rparr>,
      Static = (\<lambda>prefix root r. r)\<rparr>"

section \<open>The instrumentation of one request\<close>

lemma hcount_Observe: "hcount (Observe h v) = hcount h + 1"
  by (simp add: Observe_def Let_def)


lemma bucketIndex_le: "bucketIndex bs v \<le> length bs"
  by (simp add: bucketIndex_def length_takeWhile_le)

text \<open>An observation increments exactly one of the bucket counters.\<close>

lemma buckets_Observe:
  assumes "length (buckets h) = length (upperBounds h) + 1"
  shows "sum_list (buckets (Observe h v)) = sum_list (buckets h) + 1"
proof -
  have "bucketIndex (upperBounds h) v < length (buckets h)"
    using bucketIndex_le [of "upperBounds h" v] assms by simp
  then show ?thesis
    by (simp add: Observe_def Let_def sum_list_update)
qed

text \<open>The error handler changes the clock and the world, and nothing else but the log.\<close>

lemma c_Error_metrics:
  "errorCounter (c_Error e c) = errorCounter c"
  "requestDuration (c_Error e c) = requestDuration c"
  "invocations (c_Error e c) = invocations c"
  "handled (c_Error e c) = handled c @ [e]"
  by (simp_all add: c_Error_def split_def Let_def)

lemma metricsMiddleware_returned:
  "next c = (Returned err, c1) \<Longrightarrow>
   metricsMiddleware next c =
     (Returned err,
      (case err of
         None \<Rightarrow> c1
       | Some e \<Rightarrow> (c_Error e c1)\<lparr>errorCounter := Inc (errorCounter c1)\<rparr>)
        \<lparr>requestDuration :=
           Observe (requestDuration c1)
             (Seconds (clock (case err of None \<Rightarrow> c1 | Some e \<Rightarrow> c_Error e c1) - clock c))\<rparr>)"
  by (cases err) (simp_all add: metricsMiddleware_def Let_def c_Error_metrics)







section \<open>The instrumentation inside the server\<close>

lemma middleware_main_server:
  "middleware (main_server co path) =
     metricsMiddleware # uses (router_Init co) @ uses (InitLoggerMiddleware co)
       @ uses (InitSessionMiddleware co)"
  by (simp add: main_server_def New_def Use_def GET_def register_def Let_def)

lemma router_main_server:
  assumes "leaves_route (''GET'', ''/prometheus'') (routing (router_Init co))"
      and "leaves_route (''GET'', ''/prometheus'') (routing (InitLoggerMiddleware co))"
      and "leaves_route (''GET'', ''/prometheus'') (routing (InitSessionMiddleware co))"
      and "path \<noteq> [] \<longrightarrow> leaves_route (''GET'', ''/prometheus'') (Static co ''/'' path)"
  shows "router (main_server co path) (''GET'', ''/prometheus'') =
           WrapHandler (promhttp_Handler co)"
  using assms
  by (simp add: main_server_def New_def Use_def GET_def register_def Let_def leaves_route_def)

lemma keeps_applyMiddleware:
  "returns_keeping_histogram h \<Longrightarrow> \<forall>m \<in> set ms. passes_on m \<Longrightarrow>
   returns_keeping_histogram (applyMiddleware h ms)"
  by (induction ms) (simp_all add: passes_on_def)



text \<open>
  Claim C10. The instrumentation is the first middleware of the server that \<^verbatim>\<open>main\<close> sets
  up, installed before the route of the metrics endpoint is registered, and
  \<^verbatim>\<open>GET /prometheus\<close> is bound to the handler of the metrics library. So a request to the
  metrics endpoint runs that handler inside the instrumentation, and every scrape adds one
  to the total count of the latency histogram. The collaborators are taken not to rebind
  the route, and their handlers and middleware to return and to leave the histogram alone,
  which is out of their reach.
\<close>

theorem scrape_is_observed:
  assumes "\<forall>c. requestDuration (promhttp_Handler co c) = requestDuration c"
      and "\<forall>m \<in> set (uses (router_Init co) @ uses (InitLoggerMiddleware co)
                      @ uses (InitSessionMiddleware co)). passes_on m"
      and "leaves_route (''GET'', ''/prometheus'') (routing (router_Init co))"
      and "leaves_route (''GET'', ''/prometheus'') (routing (InitLoggerMiddleware co))"
      and "leaves_route (''GET'', ''/prometheus'') (routing (InitSessionMiddleware co))"
      and "path \<noteq> [] \<longrightarrow> leaves_route (''GET'', ''/prometheus'') (Static co ''/'' path)"
  shows "hd (middleware (main_server co path)) = metricsMiddleware
       \<and> router (main_server co path) (''GET'', ''/prometheus'') =
           WrapHandler (promhttp_Handler co)
       \<and> hcount (requestDuration
           (ServeHTTP (main_server co path) (''GET'', ''/prometheus'') c)) =
         hcount (requestDuration c) + 1"
proof -
  let ?rest = "uses (router_Init co) @ uses (InitLoggerMiddleware co)
      @ uses (InitSessionMiddleware co)"
  let ?inner = "applyMiddleware (WrapHandler (promhttp_Handler co)) ?rest"
  have route: "router (main_server co path) (''GET'', ''/prometheus'') =
      WrapHandler (promhttp_Handler co)"
    using assms(3-6) by (rule router_main_server)
  have "returns_keeping_histogram (WrapHandler (promhttp_Handler co))"
    using assms(1) by (simp add: returns_keeping_histogram_def WrapHandler_def)
  then have inner: "returns_keeping_histogram ?inner"
    using assms(2) by (rule keeps_applyMiddleware)
  obtain r c1 where n: "?inner c = (r, c1)"
    by (cases "?inner c")
  from inner n have "r \<noteq> Panicked" and keep: "requestDuration c1 = requestDuration c"
    by (metis returns_keeping_histogram_def fst_conv, metis returns_keeping_histogram_def snd_conv)
  then obtain err where r: "r = Returned err"
    by (cases r) simp_all
  have "hcount (requestDuration
           (ServeHTTP (main_server co path) (''GET'', ''/prometheus'') c)) =
         hcount (requestDuration c) + 1"
    using keep
    by (cases err)
       (simp_all add: ServeHTTP_def middleware_main_server route
          metricsMiddleware_returned [of ?inner c err c1] n [unfolded r] hcount_Observe
          c_Error_metrics)
  then show ?thesis
    using route by (simp add: middleware_main_server)
qed

theorem scrape_is_observed_witness:
  "hcount (requestDuration
     (ServeHTTP (main_server sample []) (''GET'', ''/prometheus'') (init respond 0 0))) = 1"
  using scrape_is_observed [of sample "[]" "init respond 0 0"]
  by (simp add: sample_def passes_on_def leaves_route_def scrape_def init_def NewHistogram_def)

section \<open>The run of main\<close>

lemma calls_append: "calls k (xs @ ys) p = calls k ys (calls k xs p)"
  by (induction xs arbitrary: p) simp_all

text \<open>\<^verbatim>\<open>main\<close> is its calls in the order of \<open>body\<close>, then the \<^verbatim>\<open>defer\<close>, then the return.\<close>

lemma main_calls:
  "main k = return_main k (defer_stmt rep_Close (calls k (body k) start))"
  by (simp add: main_def body_def Let_def calls_append)

lemma call_ended: "status p \<noteq> None \<Longrightarrow> call k c p = p"
  by (simp add: call_def)

lemma calls_ended: "status p \<noteq> None \<Longrightarrow> calls k cs p = p"
  by (induction cs arbitrary: p) (simp_all add: call_ended)

lemma call_running:
  "status p = None \<Longrightarrow> deferred p = [] \<Longrightarrow>
   call k c p =
     p\<lparr>trace := trace p @ [c],
       status := (if returns (outcome_of k c) then None else Some (ending_of (outcome_of k c)))\<rparr>"
  by (cases "outcome_of k c") (simp_all add: call_def unwind_def Let_def)

lemma calls_running:
  "status p = None \<Longrightarrow> deferred p = [] \<Longrightarrow>
   calls k cs p =
     p\<lparr>trace := trace p @ upto_abort k cs,
       status := (if list_all (\<lambda>c. returns (outcome_of k c)) cs then None
                  else Some (first_ending k cs))\<rparr>"
proof (induction cs arbitrary: p)
  case Nil
  then show ?case by simp
next
  case (Cons c cs)
  show ?case
  proof (cases "returns (outcome_of k c)")
    case True
    with Cons show ?thesis by (simp add: call_running)
  next
    case False
    with Cons.prems show ?thesis by (simp add: call_running calls_ended)
  qed
qed

lemma upto_abort_all:
  "list_all (\<lambda>c. returns (outcome_of k c)) cs \<Longrightarrow> upto_abort k cs = cs"
  by (induction cs) simp_all

lemma upto_abort_append:
  "upto_abort k (xs @ ys) =
     (if list_all (\<lambda>c. returns (outcome_of k c)) xs then xs @ upto_abort k ys
      else upto_abort k xs)"
  by (induction xs) simp_all

lemma first_ending_append:
  "first_ending k (xs @ ys) =
     (if list_all (\<lambda>c. returns (outcome_of k c)) xs then first_ending k ys
      else first_ending k xs)"
  by (induction xs) simp_all

text \<open>
  The whole run: the deferred \<^verbatim>\<open>rep.Close()\<close> of the last line behaves as one more call at
  the end of \<^verbatim>\<open>main\<close>, made only if every call before it has returned.
\<close>

lemma main_result:
  "main k =
     \<lparr>trace = upto_abort k (body k @ [rep_Close]), deferred = [],
      status = Some (first_ending k (body k @ [rep_Close]))\<rparr>"
proof (cases "list_all (\<lambda>c. returns (outcome_of k c)) (body k)")
  case True
  then have q: "calls k (body k) start = start\<lparr>trace := body k\<rparr>"
    by (simp add: calls_running start_def upto_abort_all)
  show ?thesis
    unfolding main_calls q
    by (cases "outcome_of k rep_Close")
       (simp_all add: True defer_stmt_def return_main_def unwind_def start_def
          upto_abort_append first_ending_append)
next
  case False
  then have q: "calls k (body k) start =
      start\<lparr>trace := upto_abort k (body k), status := Some (first_ending k (body k))\<rparr>"
    by (simp add: calls_running start_def)
  show ?thesis
    unfolding main_calls q
    by (simp add: False defer_stmt_def return_main_def start_def
          upto_abort_append first_ending_append)
qed

lemma trace_main: "trace (main k) = upto_abort k (body k @ [rep_Close])"
  by (simp add: main_result)

lemma status_main: "status (main k) = Some (first_ending k (body k @ [rep_Close]))"
  by (simp add: main_result)

lemma distinct_body: "distinct (body k @ [rep_Close])"
  by (simp add: body_def)

lemma upto_abort_stops:
  "\<not> returns (outcome_of k c) \<Longrightarrow> set (upto_abort k (xs @ c # ys)) \<subseteq> set (xs @ [c])"
  by (induction xs) auto

lemma first_ending_zero:
  "first_ending k cs = ExitCode 0 \<longleftrightarrow>
     (\<forall>c \<in> set (upto_abort k cs). returns (outcome_of k c) \<or> outcome_of k c = Exits 0)"
proof (induction cs)
  case Nil
  then show ?case by simp
next
  case (Cons c cs)
  then show ?case by (cases "outcome_of k c") auto
qed

lemma after_split: "c \<in> set cs \<Longrightarrow> \<exists>xs. cs = xs @ c # after c cs"
proof (induction cs)
  case Nil
  then show ?case by simp
next
  case (Cons x cs)
  show ?case
  proof (cases "x = c")
    case True
    then show ?thesis by simp
  next
    case False
    with Cons obtain xs where "cs = xs @ c # after c cs" by auto
    then have "x # cs = (x # xs) @ c # after c (x # cs)" using False by simp
    then show ?thesis by blast
  qed
qed

lemma aborted_call_is_last:
  assumes "c \<in> set cs" and "distinct cs" and "\<not> returns (outcome_of k c)"
  shows "set (upto_abort k cs) \<inter> set (after c cs) = {}"
proof -
  from assms(1) obtain xs where cs: "cs = xs @ c # after c cs"
    using after_split by blast
  then have "set (upto_abort k cs) \<subseteq> set (xs @ [c])"
    using upto_abort_stops [OF assms(3), of xs "after c cs"] by simp
  moreover have "set (xs @ [c]) \<inter> set (after c cs) = {}"
    using assms(2) cs by (metis distinct_append append.assoc append_Cons append_Nil)
  ultimately show ?thesis by blast
qed

lemma Start_after_stage:
  "c \<in> set startup_stages \<Longrightarrow>
   c \<in> set (body k @ [rep_Close]) \<and> e_Start \<in> set (after c (body k @ [rep_Close]))"
  by (auto simp add: startup_stages_def body_def)

text \<open>The repository is closed in exactly the runs in which the serve call returns.\<close>

lemma upto_abort_subset: "set (upto_abort k cs) \<subseteq> set cs"
  by (induction cs) auto

lemma rep_Close_iff:
  "rep_Close \<in> set (trace (main k)) \<longleftrightarrow> list_all (\<lambda>c. returns (outcome_of k c)) (body k)"
proof (cases "list_all (\<lambda>c. returns (outcome_of k c)) (body k)")
  case True
  then show ?thesis by (simp add: trace_main upto_abort_append)
next
  case False
  have "rep_Close \<notin> set (body k)"
    by (simp add: body_def)
  then have "rep_Close \<notin> set (upto_abort k (body k))"
    using upto_abort_subset [of k "body k"] by blast
  then show ?thesis
    using False by (simp add: trace_main upto_abort_append)
qed

text \<open>
  Claim C1. The repository is meant to be closed exactly once on every exit path: a
  shutdown signal, an error returned by the serve call, a startup stage that aborts.
  Evaluated on the code: when the serve call returns an error, \<^verbatim>\<open>rep.Close()\<close> runs once;
  when a signal ends the process while \<^verbatim>\<open>e.Start\<close> blocks, and when the migration panics,
  the \<^verbatim>\<open>defer\<close> statement of the last line has not been reached and \<^verbatim>\<open>rep.Close()\<close> does
  not run at all.
\<close>

theorem rep_Close_only_when_Start_returns:
  "count_list (trace (main serve_error)) rep_Close = 1 \<and>
   count_list (trace (main signal_while_serving)) rep_Close = 0 \<and>
   count_list (trace (main migration_panics)) rep_Close = 0"
  by (simp add: trace_main body_def serve_error_def signal_while_serving_def
        migration_panics_def all_return_def)

text \<open>
  Claim C2, as stated: a startup stage that reports a failure keeps the later stages and the
  serve call from running. It fails for a migration that comes back with an error:
  \<^verbatim>\<open>main\<close> does not look at what the stage reports, and goes on to seed and to serve.
\<close>

theorem failed_migration_still_serves:
  "returned (outcome_of migration_fails migration_CreateDatabase) = Some ''migration failed'' \<and>
   migration_InitMasterData \<in> set (trace (main migration_fails)) \<and>
   e_Start \<in> set (trace (main migration_fails))"
  by (simp add: trace_main body_def migration_fails_def all_return_def)

text \<open>
  Claim C2, amended. If one of the startup stages (loading the configuration, opening the
  repository, migrating the schema, seeding the data) ends the process instead of
  returning, then the serve call is never made, and none of the calls that follow the stage
  in \<^verbatim>\<open>main\<close> is made.
\<close>

theorem aborting_stage_stops_startup:
  assumes "c \<in> set startup_stages" and "\<not> returns (outcome_of k c)"
  shows "e_Start \<notin> set (trace (main k)) \<and>
         set (trace (main k)) \<inter> set (after c (body k @ [rep_Close])) = {}"
proof -
  have "set (trace (main k)) \<inter> set (after c (body k @ [rep_Close])) = {}"
    unfolding trace_main
    using Start_after_stage [OF assms(1)] distinct_body assms(2)
    by (intro aborted_call_is_last) auto
  with Start_after_stage [OF assms(1), of k] show ?thesis by blast
qed

theorem aborting_stage_stops_startup_witness:
  "e_Start \<notin> set (trace (main migration_panics)) \<and>
   set (trace (main migration_panics)) \<inter>
     set (after migration_CreateDatabase (body migration_panics @ [rep_Close])) = {}"
  using aborting_stage_stops_startup [of migration_CreateDatabase migration_panics]
  by (simp add: startup_stages_def migration_panics_def all_return_def)

text \<open>
  Claim C5, as stated: the exit code is not 0 when the serve call fails. It fails for a
  serve call that returns an error (the port is taken): \<^verbatim>\<open>main\<close> logs the error and
  returns, so the exit code is 0.
\<close>

theorem serve_error_exits_zero:
  "returned (outcome_of serve_error e_Start) =
     Some ''listen tcp :8000: bind: address already in use'' \<and>
   status (main serve_error) = Some (ExitCode 0)"
  by (simp add: status_main body_def serve_error_def all_return_def)

text \<open>
  Claim C5, amended. The exit code is 0 exactly when every call that \<^verbatim>\<open>main\<close> makes
  returns (whatever it reports, the serve call included) or is itself an exit with code 0;
  \<^verbatim>\<open>main\<close> never chooses an exit code. The process ends otherwise only by a panic, by an
  \<^verbatim>\<open>os.Exit\<close> inside a callee, or by a signal.
\<close>

theorem exit_code_zero_iff:
  "status (main k) = Some (ExitCode 0) \<longleftrightarrow>
     (\<forall>c \<in> set (trace (main k)). returns (outcome_of k c) \<or> outcome_of k c = Exits 0)"
  by (simp add: status_main trace_main first_ending_zero)

theorem exit_code_zero_iff_witness:
  "status (main serve_error) = Some (ExitCode 0) \<and>
   status (main signal_while_serving) \<noteq> Some (ExitCode 0)"
  using exit_code_zero_iff [of serve_error] exit_code_zero_iff [of signal_while_serving]
  by (simp add: trace_main body_def serve_error_def signal_while_serving_def all_return_def)

lemma body_startup:
  "body k = startup k @ e_Start #
     (if returned (outcome_of k e_Start) \<noteq> None then [Errorf_start] else [])"
  by (simp add: body_def startup_def)

lemma distinct_upto_abort: "distinct cs \<Longrightarrow> distinct (upto_abort k cs)"
proof (induction cs)
  case Nil
  then show ?case by simp
next
  case (Cons c cs)
  then show ?case
    using upto_abort_subset [of k cs] by auto
qed

text \<open>
  Claim C6, as stated: the instrumentation is installed during the registration of the
  middleware, after the routes are registered. It fails: in a run that reaches the serve
  call (and serves until a signal ends it), the instrumentation is installed before the
  configuration is loaded and before the routes are registered.
\<close>

theorem instrumentation_installed_first:
  "position e_Use (trace (main signal_while_serving))
     < position config_Load (trace (main signal_while_serving)) \<and>
   position e_Use (trace (main signal_while_serving))
     < position router_Init_call (trace (main signal_while_serving))"
  by (simp add: trace_main body_def signal_while_serving_def all_return_def)

text \<open>
  Claim C6, amended. When every call before the serve call returns, startup creates the
  server, installs the instrumentation and registers the metrics route, and then runs its
  stages in this order: load the configuration, initialise logging, open the repository,
  assemble the context, migrate the schema, seed the data, register the routes, register
  the logging and the session middleware, mount the static content if a path is
  configured, serve. No stage is skipped, and no call is made twice. The instrumentation is
  installed before every call that is handed the server, so ahead of every other
  middleware.
\<close>

theorem startup_order:
  assumes "\<forall>c \<in> set (startup k). returns (outcome_of k c)"
  shows "(\<exists>rest. trace (main k) =
      [echo_New, e_Use, e_GET, config_Load, logger_NewLogger, Infof_loaded,
       repository_NewBookRepository, container_NewContainer,
       migration_CreateDatabase, migration_InitMasterData,
       router_Init_call, InitLoggerMiddleware_call, InitSessionMiddleware_call]
      @ (if staticPath k \<noteq> [] then [e_Static, Infof_static] else [])
      @ e_Start # rest)
    \<and> distinct (trace (main k))"
proof -
  have ret: "list_all (\<lambda>c. returns (outcome_of k c)) (startup k)"
    using assms by (simp add: list_all_iff)
  have "trace (main k) = startup k @ upto_abort k
      (e_Start # (if returned (outcome_of k e_Start) \<noteq> None then [Errorf_start] else [])
        @ [rep_Close])"
    using ret by (simp add: trace_main body_startup upto_abort_append)
  then have "\<exists>rest. trace (main k) = startup k @ e_Start # rest"
    by simp
  moreover have "distinct (trace (main k))"
    unfolding trace_main using distinct_body by (rule distinct_upto_abort)
  ultimately show ?thesis
    by (simp add: startup_def)
qed

theorem startup_order_witness:
  "(\<exists>rest. trace (main serve_error) =
      [echo_New, e_Use, e_GET, config_Load, logger_NewLogger, Infof_loaded,
       repository_NewBookRepository, container_NewContainer,
       migration_CreateDatabase, migration_InitMasterData,
       router_Init_call, InitLoggerMiddleware_call, InitSessionMiddleware_call,
       e_Static, Infof_static, e_Start] @ rest)
   \<and> distinct (trace (main serve_error))"
  using startup_order [of serve_error]
  by (simp add: startup_def serve_error_def all_return_def)

end
